theory Spec2Isabelle
  imports Main "HOL-Library.Word"
begin

section \<open>Error data decoding of the transaction replayer\<close>

text \<open>
  The theory embeds the error decoding part of \<^verbatim>\<open>scripts/replayTransaction.ts\<close>:
  \<^verbatim>\<open>panicErrorCodeToReason\<close>, \<^verbatim>\<open>decodeCustomErrorData\<close>, \<^verbatim>\<open>decodeRevertMessage\<close>,
  \<^verbatim>\<open>decodePanicCode\<close> and \<^verbatim>\<open>decodeErrorData\<close>. The error data is what the script
  receives: a JavaScript string holding the hexadecimal form of the revert bytes.
  The ABI codec, the big number type and the contract interfaces belong to the ethers
  library, the artifacts to Hardhat; they are parameters of the model, and each call
  that can throw or reject returns a sum.
\<close>

subsection \<open>JavaScript strings and arrays\<close>

text \<open>\<^verbatim>\<open>s.startsWith(p)\<close>: a comparison of characters, upper and lower case distinct.\<close>

definition startsWith :: "string \<Rightarrow> string \<Rightarrow> bool" where
  "startsWith s p = (take (length p) s = p)"

text \<open>\<^verbatim>\<open>s.substring(n)\<close> with one argument: the characters from index \<open>n\<close> on.\<close>

definition substring :: "string \<Rightarrow> nat \<Rightarrow> string" where
  "substring s n = drop n s"

text \<open>\<^verbatim>\<open>xs.join(sep)\<close> on an array of strings.\<close>

fun join :: "string list \<Rightarrow> string \<Rightarrow> string" where
  "join [] sep = []"
| "join [x] sep = x"
| "join (x # y # ys) sep = x @ sep @ join (y # ys) sep"

subsection \<open>The library boundary\<close>

text \<open>A thrown JavaScript error, with its message.\<close>

datatype error = Error string

text \<open>
  The operations of ethers that the script calls. \<open>abiDecodeString content\<close> is
  \<^verbatim>\<open>ethers.utils.defaultAbiCoder.decode(["string"], content)[0]\<close> and \<open>abiDecodeUint\<close>
  the same with \<^verbatim>\<open>["uint"]\<close>; both throw on a payload they cannot decode. A decoded
  unsigned integer is a BigNumber, here a \<open>nat\<close>, with its methods \<^verbatim>\<open>toHexString()\<close>
  and \<^verbatim>\<open>toNumber()\<close>, the latter into a JavaScript number. \<open>toString\<close> is the
  \<^verbatim>\<open>toString()\<close> of a decoded custom error argument, of type \<open>'a\<close>.
\<close>

record 'a Ethers =
  abiDecodeString :: "string \<Rightarrow> error + string"
  abiDecodeUint :: "string \<Rightarrow> error + nat"
  toHexString :: "nat \<Rightarrow> string"
  toNumber :: "nat \<Rightarrow> error + nat"
  toString :: "'a \<Rightarrow> string"

text \<open>
  \<^verbatim>\<open>ErrorDescription\<close>: the fields the script reads, \<^verbatim>\<open>errorFragment.name\<close> and
  \<^verbatim>\<open>args\<close>.
\<close>

record 'a ErrorDescription =
  errorFragmentName :: string
  args :: "'a list"

record Artifact =
  contractName :: string
  bytecode :: string

text \<open>\<^verbatim>\<open>contractFactory.interface.parseError(data)\<close>; it throws when no error matches.\<close>

record 'a ContractFactory =
  parseError :: "string \<Rightarrow> error + 'a ErrorDescription"

record 'a ContractEntity =
  artifact :: Artifact
  contractFactory :: "'a ContractFactory"

text \<open>
  The Hardhat runtime environment, as far as \<^verbatim>\<open>getDeployableContractEntities\<close> uses
  it: \<^verbatim>\<open>artifacts.getAllFullyQualifiedNames()\<close>, \<^verbatim>\<open>artifacts.readArtifact(name)\<close> and
  \<^verbatim>\<open>ethers.getContractFactory(name)\<close>. Each of the three promises can reject.
\<close>

record 'a Hardhat =
  getAllFullyQualifiedNames :: "error + string list"
  readArtifact :: "string \<Rightarrow> error + Artifact"
  getContractFactory :: "string \<Rightarrow> error + 'a ContractFactory"

subsection \<open>The script\<close>

definition textLevelIndent :: string where
  "textLevelIndent = ''  ''"

definition panicErrorCodeToReason :: "nat \<Rightarrow> string" where
  "panicErrorCodeToReason errorCode =
    (if errorCode = 0x1 then ''Assertion error''
     else if errorCode = 0x11 then
       ''Arithmetic operation underflowed or overflowed outside of an unchecked block''
     else if errorCode = 0x12 then ''Division or modulo division by zero''
     else if errorCode = 0x21 then
       ''Tried to convert a value into an enum, but the value was too big or negative''
     else if errorCode = 0x22 then ''Incorrectly encoded storage byte array''
     else if errorCode = 0x31 then ''.pop() was called on an empty array''
     else if errorCode = 0x32 then ''Array accessed at an out-of-bounds or negative index''
     else if errorCode = 0x41 then
       ''Too much memory was allocated, or an array was created that is too large''
     else if errorCode = 0x51 then
       ''Called a zero-initialized variable of internal function type''
     else ''???'')"

text \<open>
  The \<^verbatim>\<open>for\<close> loop of \<^verbatim>\<open>getDeployableContractEntities\<close>: the array
  \<^verbatim>\<open>deployableContractEntities\<close> is the accumulator. A rejected \<^verbatim>\<open>await\<close> ends the
  loop with its error.
\<close>

fun forContractFullNames ::
  "'a Hardhat \<Rightarrow> string list \<Rightarrow> 'a ContractEntity list \<Rightarrow> error + 'a ContractEntity list" where
  "forContractFullNames hre [] deployableContractEntities = Inr deployableContractEntities"
| "forContractFullNames hre (contractFullName # rest) deployableContractEntities =
    (case readArtifact hre contractFullName of
       Inl e \<Rightarrow> Inl e
     | Inr anArtifact \<Rightarrow>
         if bytecode anArtifact \<noteq> ''0x'' then
           (case getContractFactory hre contractFullName of
              Inl e \<Rightarrow> Inl e
            | Inr aContractFactory \<Rightarrow>
                forContractFullNames hre rest
                  (deployableContractEntities @
                   [\<lparr> artifact = anArtifact, contractFactory = aContractFactory \<rparr>]))
         else forContractFullNames hre rest deployableContractEntities)"

definition getDeployableContractEntities :: "'a Hardhat \<Rightarrow> error + 'a ContractEntity list" where
  "getDeployableContractEntities hre =
    (case getAllFullyQualifiedNames hre of
       Inl e \<Rightarrow> Inl e
     | Inr contractFullNames \<Rightarrow> forContractFullNames hre contractFullNames [])"

text \<open>The callback of \<^verbatim>\<open>args.map\<close> in \<^verbatim>\<open>decodeCustomErrorData\<close>.\<close>

definition decodeArg :: "'a Ethers \<Rightarrow> 'a \<Rightarrow> string" where
  \<open>decodeArg lib arg =
    (let argString = toString lib arg
     in if startsWith argString ''0x'' then ''"'' @ argString @ ''"'' else argString)\<close>

text \<open>
  The body of the \<^verbatim>\<open>try\<close> block of \<^verbatim>\<open>decodeCustomErrorData\<close> for one contract
  entity: \<open>Inl\<close> when \<^verbatim>\<open>parseError\<close> throws, the decoded error string otherwise.
\<close>

definition tryDecodeCustomError :: "'a Ethers \<Rightarrow> 'a ContractEntity \<Rightarrow> string \<Rightarrow> error + string" where
  \<open>tryDecodeCustomError lib contractEntity errorData =
    (case parseError (contractFactory contractEntity) errorData of
       Inl e \<Rightarrow> Inl e
     | Inr errorDescription \<Rightarrow>
         (let decodedArgs = join (map (decodeArg lib) (args errorDescription)) '', '';
              contractName = contractName (artifact contractEntity);
              decodedError = errorFragmentName errorDescription @ ''('' @ decodedArgs @
                '') -- from contract "'' @ contractName @ ''"''
          in Inr decodedError))\<close>

text \<open>
  The \<^verbatim>\<open>forEach\<close> loop over the contract entities: the array
  \<^verbatim>\<open>decodedCustomErrorStrings\<close> is the accumulator, \<^verbatim>\<open>push\<close> appends at its end, and
  the \<^verbatim>\<open>catch\<close> block leaves it as it is.
\<close>

fun forEachContractEntity ::
  "'a Ethers \<Rightarrow> 'a ContractEntity list \<Rightarrow> string \<Rightarrow> string list \<Rightarrow> string list" where
  "forEachContractEntity lib [] errorData decodedCustomErrorStrings = decodedCustomErrorStrings"
| "forEachContractEntity lib (contractEntity # rest) errorData decodedCustomErrorStrings =
    forEachContractEntity lib rest errorData
      (case tryDecodeCustomError lib contractEntity errorData of
         Inr decodedError \<Rightarrow> decodedCustomErrorStrings @ [decodedError]
       | Inl e \<Rightarrow> decodedCustomErrorStrings)"

text \<open>
  \<^verbatim>\<open>decodeCustomErrorData\<close>. The \<^verbatim>\<open>await\<close> of \<^verbatim>\<open>getDeployableContractEntities()\<close>
  stands outside the \<^verbatim>\<open>try\<close> block: its rejection leaves the function. The loop
  starts from an empty array.
\<close>

definition decodeCustomErrorData ::
  "'a Hardhat \<Rightarrow> 'a Ethers \<Rightarrow> string \<Rightarrow> error + string list" where
  "decodeCustomErrorData hre lib errorData =
    (case getDeployableContractEntities hre of
       Inl e \<Rightarrow> Inl e
     | Inr deployableContractEntites \<Rightarrow>
         Inr (forEachContractEntity lib deployableContractEntites errorData []))"

definition decodeRevertMessage :: "'a Ethers \<Rightarrow> string \<Rightarrow> error + string" where
  \<open>decodeRevertMessage lib errorData =
    (let content = ''0x'' @ substring errorData 10
     in case abiDecodeString lib content of
          Inl e \<Rightarrow> Inl e
        | Inr reason \<Rightarrow> Inr (''Reverted with the message: "'' @ reason @ ''".''))\<close>

definition decodePanicCode :: "'a Ethers \<Rightarrow> string \<Rightarrow> error + string" where
  \<open>decodePanicCode lib errorData =
    (let content = ''0x'' @ substring errorData 10
     in case abiDecodeUint lib content of
          Inl e \<Rightarrow> Inl e
        | Inr code \<Rightarrow>
            (let codeHex = toHexString lib code
             in case toNumber lib code of
                  Inl e \<Rightarrow> Inl e
                | Inr errorCode \<Rightarrow>
                    (let reason = panicErrorCodeToReason errorCode
                     in Inr (''Panicked with the code: "'' @ codeHex @ ''"('' @ reason @ '').''))))\<close>

text \<open>
  \<^verbatim>\<open>decodeErrorData\<close>. It awaits \<^verbatim>\<open>decodeCustomErrorData\<close> first, and a rejection
  there leaves the function before the error data is looked at. The first component of
  the pair is \<^verbatim>\<open>result\<close>, the second the flag \<^verbatim>\<open>isCustomErrorOnly\<close>; an error thrown
  by one of the two standard decoders leaves the function.
\<close>

definition decodeErrorData ::
  "'a Hardhat \<Rightarrow> 'a Ethers \<Rightarrow> string \<Rightarrow> string \<Rightarrow> error + string" where
  \<open>decodeErrorData hre lib errorData textIndent =
    (let nextLevelTextIndent = textIndent @ textLevelIndent
     in case decodeCustomErrorData hre lib errorData of
          Inl e \<Rightarrow> Inl e
        | Inr decodedCustomErrorStrings \<Rightarrow>
            (let branch =
               (if startsWith errorData ''0x08c379a0'' then
                  (case decodeRevertMessage lib errorData of
                     Inl e \<Rightarrow> Inl e
                   | Inr message \<Rightarrow> Inr (textIndent @ message, False))
                else if startsWith errorData ''0x4e487b71'' then
                  (case decodePanicCode lib errorData of
                     Inl e \<Rightarrow> Inl e
                   | Inr message \<Rightarrow> Inr (textIndent @ message, False))
                else if length decodedCustomErrorStrings > 0 then
                  Inr (textIndent @
                       ''Reverted with a custom error (or several suitable ones):\<newline>'' @
                       nextLevelTextIndent @
                       join decodedCustomErrorStrings (''\<newline>'' @ nextLevelTextIndent), True)
                else
                  Inr (textIndent @
                       ''Reverted with a custom error that can't be decoded using the provided contracts.\<newline>'' @
                       textIndent @
                       ''Try to add more contract(s) to the "contracts" directory to get decoded error.'',
                       True))
             in case branch of
                  Inl e \<Rightarrow> Inl e
                | Inr (result, isCustomErrorOnly) \<Rightarrow>
                    (if \<not> isCustomErrorOnly \<and> length decodedCustomErrorStrings > 0 then
                       Inr (result @ '' Also it can be the following custom error(s):\<newline>'' @
                            nextLevelTextIndent @
                            join decodedCustomErrorStrings (''\<newline>'' @ nextLevelTextIndent))
                     else Inr result)))\<close>

subsection \<open>Classification and report as two steps\<close>

text \<open>
  Once the custom error strings are there, \<^verbatim>\<open>decodeErrorData\<close> classifies the error
  data and composes the report in one body.
  The two definitions below cut that body at the seam: \<open>classify\<close> is the chain of
  \<^verbatim>\<open>startsWith\<close> tests with the decoding of the two standard payloads, and
  \<open>formatReport\<close> is the composition of the text from the outcome and the decoded
  custom error strings. Lemma \<open>decodeErrorData_split\<close> shows that the cut is exact.
\<close>

datatype ClassificationResult =
    StandardMessage string
  | StandardPanic nat string
  | Unclassified

definition classify :: "'a Ethers \<Rightarrow> string \<Rightarrow> error + ClassificationResult" where
  "classify lib errorData =
    (if startsWith errorData ''0x08c379a0'' then
       (case abiDecodeString lib (''0x'' @ substring errorData 10) of
          Inl e \<Rightarrow> Inl e
        | Inr reason \<Rightarrow> Inr (StandardMessage reason))
     else if startsWith errorData ''0x4e487b71'' then
       (case abiDecodeUint lib (''0x'' @ substring errorData 10) of
          Inl e \<Rightarrow> Inl e
        | Inr code \<Rightarrow>
            (case toNumber lib code of
               Inl e \<Rightarrow> Inl e
             | Inr errorCode \<Rightarrow> Inr (StandardPanic code (panicErrorCodeToReason errorCode))))
     else Inr Unclassified)"

definition formatReport ::
  "'a Ethers \<Rightarrow> ClassificationResult \<Rightarrow> string list \<Rightarrow> string \<Rightarrow> string" where
  \<open>formatReport lib classification decodedCustomErrorStrings textIndent =
    (let nextLevelTextIndent = textIndent @ textLevelIndent;
         also =
           (if length decodedCustomErrorStrings > 0 then
              '' Also it can be the following custom error(s):\<newline>'' @ nextLevelTextIndent @
              join decodedCustomErrorStrings (''\<newline>'' @ nextLevelTextIndent)
            else [])
     in case classification of
          StandardMessage reason \<Rightarrow>
            textIndent @ ''Reverted with the message: "'' @ reason @ ''".'' @ also
        | StandardPanic code reason \<Rightarrow>
            textIndent @ ''Panicked with the code: "'' @ toHexString lib code @ ''"('' @ reason @
            '').'' @ also
        | Unclassified \<Rightarrow>
            (if length decodedCustomErrorStrings > 0 then
               textIndent @ ''Reverted with a custom error (or several suitable ones):\<newline>'' @
               nextLevelTextIndent @
               join decodedCustomErrorStrings (''\<newline>'' @ nextLevelTextIndent)
             else
               textIndent @
               ''Reverted with a custom error that can't be decoded using the provided contracts.\<newline>'' @
               textIndent @
               ''Try to add more contract(s) to the "contracts" directory to get decoded error.''))\<close>

subsection \<open>Error data as bytes\<close>

text \<open>
  The node delivers the revert bytes as a hexadecimal string: \<^verbatim>\<open>0x\<close>, then two lower
  case digits for each byte. \<open>hexlify\<close> is that rendering; it relates the bytes of a
  claim to the string the script tests.
\<close>

definition hexDigit :: "nat \<Rightarrow> char" where
  "hexDigit d = ''0123456789abcdef'' ! d"

definition hexByte :: "8 word \<Rightarrow> string" where
  "hexByte b = [hexDigit (unat b div 16), hexDigit (unat b mod 16)]"

definition hexlify :: "8 word list \<Rightarrow> string" where
  "hexlify bytes = ''0x'' @ concat (map hexByte bytes)"

text \<open>The selectors of \<^verbatim>\<open>Error(string)\<close> and \<^verbatim>\<open>Panic(uint256)\<close>, as bytes.\<close>

definition errorSelector :: "8 word list" where
  "errorSelector = [0x08, 0xc3, 0x79, 0xa0]"


text \<open>
  The bytes that a hexadecimal string denotes, with digits of either case. Two strings
  that differ only in the case of their digits denote the same bytes.
\<close>

definition hexDigitValue :: "char \<Rightarrow> nat option" where
  "hexDigitValue c =
    (let n = (of_char c :: nat)
     in if 48 \<le> n \<and> n \<le> 57 then Some (n - 48)
        else if 97 \<le> n \<and> n \<le> 102 then Some (n - 87)
        else if 65 \<le> n \<and> n \<le> 70 then Some (n - 55)
        else None)"

fun hexPairs :: "string \<Rightarrow> 8 word list option" where
  "hexPairs [] = Some []"
| "hexPairs [c] = None"
| "hexPairs (h # l # cs) =
    (case (hexDigitValue h, hexDigitValue l, hexPairs cs) of
       (Some a, Some b, Some bytes) \<Rightarrow> Some (word_of_nat (16 * a + b) # bytes)
     | _ \<Rightarrow> None)"

definition arrayify :: "string \<Rightarrow> 8 word list option" where
  "arrayify s = (if startsWith s ''0x'' then hexPairs (drop 2 s) else None)"

subsection \<open>Example data\<close>

text \<open>
  A codec that knows three payloads: the ABI encoding of the string
  \<^verbatim>\<open>insufficient funds\<close>, of the panic code \<open>0x11\<close> and of the number \<open>2 ^ 53\<close>, the
  first integer that \<^verbatim>\<open>toNumber()\<close> refuses. Its \<open>toHexString\<close> is right for codes
  below 256. Decoded custom error arguments are given by their \<^verbatim>\<open>toString()\<close> form.
\<close>

definition exampleEthers :: "string Ethers" where
  "exampleEthers =
    \<lparr> abiDecodeString = (\<lambda>content.
         if content = ''0x00000000000000000000000000000000000000000000000000000000000000200000000000000000000000000000000000000000000000000000000000000012696e73756666696369656e742066756e64730000000000000000000000000000''
         then Inr ''insufficient funds'' else Inl (Error ''data out-of-bounds'')),
       abiDecodeUint = (\<lambda>content.
         if content = ''0x0000000000000000000000000000000000000000000000000000000000000011''
         then Inr 0x11
         else if content = ''0x0000000000000000000000000000000000000000000000000020000000000000''
         then Inr (2 ^ 53)
         else Inl (Error ''data out-of-bounds'')),
       toHexString = (\<lambda>code. hexlify [word_of_nat code]),
       toNumber = (\<lambda>code. if code < 2 ^ 53 then Inr code else Inl (Error ''overflow'')),
       toString = (\<lambda>arg. arg) \<rparr>"

text \<open>An interface with one custom error, of selector \<^verbatim>\<open>0xcf479181\<close>.\<close>

definition exampleFactory :: "string ContractFactory" where
  "exampleFactory =
    \<lparr> parseError = (\<lambda>data.
         if startsWith data ''0xcf479181''
         then Inr \<lparr> errorFragmentName = ''InsufficientBalance'', args = [''0xABCDEF'', ''42''] \<rparr>
         else Inl (Error ''no matching error'')) \<rparr>"

definition tokenA :: "string ContractEntity" where
  "tokenA = \<lparr> artifact = \<lparr> contractName = ''TokenA'', bytecode = ''0x6080'' \<rparr>,
              contractFactory = exampleFactory \<rparr>"

definition tokenB :: "string ContractEntity" where
  "tokenB = \<lparr> artifact = \<lparr> contractName = ''TokenB'', bytecode = ''0x6080'' \<rparr>,
              contractFactory = exampleFactory \<rparr>"

text \<open>A contract without custom errors.\<close>

definition vault :: "string ContractEntity" where
  "vault = \<lparr> artifact = \<lparr> contractName = ''Vault'', bytecode = ''0x6080'' \<rparr>,
             contractFactory = \<lparr> parseError = (\<lambda>data. Inl (Error ''no matching error'')) \<rparr> \<rparr>"

text \<open>
  A contract that declares a custom error \<^verbatim>\<open>Panic(uint256)\<close>: its selector is the one
  of the standard panic.
\<close>

definition checker :: "string ContractEntity" where
  "checker =
    \<lparr> artifact = \<lparr> contractName = ''Checker'', bytecode = ''0x6080'' \<rparr>,
      contractFactory =
        \<lparr> parseError = (\<lambda>data.
             if startsWith data ''0x4e487b71''
             then Inr \<lparr> errorFragmentName = ''Panic'', args = [''17''] \<rparr>
             else Inl (Error ''no matching error'')) \<rparr> \<rparr>"

text \<open>A second contract with the custom error \<^verbatim>\<open>Panic(uint256)\<close>.\<close>

definition auditor :: "string ContractEntity" where
  "auditor = \<lparr> artifact = \<lparr> contractName = ''Auditor'', bytecode = ''0x6080'' \<rparr>,
               contractFactory = contractFactory checker \<rparr>"


text \<open>An interface declaration: its artifact has no bytecode.\<close>

definition iToken :: "string ContractEntity" where
  "iToken = \<lparr> artifact = \<lparr> contractName = ''IToken'', bytecode = ''0x'' \<rparr>,
              contractFactory = exampleFactory \<rparr>"

text \<open>A Hardhat environment that holds the given contracts under their full names.\<close>

definition hardhatOf :: "(string \<times> 'a ContractEntity) list \<Rightarrow> 'a Hardhat" where
  "hardhatOf contracts =
    \<lparr> getAllFullyQualifiedNames = Inr (map fst contracts),
      readArtifact = (\<lambda>name.
        case map_of contracts name of
          Some c \<Rightarrow> Inr (artifact c)
        | None \<Rightarrow> Inl (Error ''artifact not found'')),
      getContractFactory = (\<lambda>name.
        case map_of contracts name of
          Some c \<Rightarrow> Inr (contractFactory c)
        | None \<Rightarrow> Inl (Error ''artifact not found'')) \<rparr>"

definition exampleHardhat :: "string Hardhat" where
  "exampleHardhat =
    hardhatOf [(''contracts/IToken.sol:IToken'', iToken),
               (''contracts/TokenA.sol:TokenA'', tokenA),
               (''contracts/Vault.sol:Vault'', vault),
               (''contracts/TokenB.sol:TokenB'', tokenB)]"

definition panicHardhat :: "string Hardhat" where
  "panicHardhat =
    hardhatOf [(''contracts/TokenA.sol:TokenA'', tokenA),
               (''contracts/Checker.sol:Checker'', checker),
               (''contracts/Auditor.sol:Auditor'', auditor)]"



text \<open>
  The revert bytes of \<^verbatim>\<open>Error("insufficient funds")\<close> and of \<^verbatim>\<open>Panic(0x11)\<close>.
\<close>

definition revertBytes :: "8 word list" where
  "revertBytes =
    [0x08, 0xc3, 0x79, 0xa0] @
    replicate 31 0 @ [0x20] @
    replicate 31 0 @ [0x12] @
    [0x69, 0x6e, 0x73, 0x75, 0x66, 0x66, 0x69, 0x63, 0x69, 0x65, 0x6e, 0x74, 0x20, 0x66, 0x75,
     0x6e, 0x64, 0x73] @ replicate 14 0"

definition panicBytes :: "8 word list" where
  "panicBytes = [0x4e, 0x48, 0x7b, 0x71] @ replicate 31 0 @ [0x11]"

text \<open>
  The bytes of \<open>revertBytes\<close> in a hexadecimal form whose selector has upper case
  digits.
\<close>

definition upperCaseRevert :: string where
  "upperCaseRevert = ''0x08C379A000000000000000000000000000000000000000000000000000000000000000200000000000000000000000000000000000000000000000000000000000000012696e73756666696369656e742066756e64730000000000000000000000000000''"



section \<open>Properties\<close>

subsection \<open>The hexadecimal rendering\<close>




















lemma hexlify_panicBytes_full:
  "hexlify panicBytes =
     ''0x4e487b710000000000000000000000000000000000000000000000000000000000000011''"
  by code_simp

lemma hexPairs_upper: "hexPairs (''08C379A0'' @ rest) = map_option (\<lambda>bytes. errorSelector @ bytes) (hexPairs rest)"
  by (simp add: hexDigitValue_def errorSelector_def split: option.splits)

lemma arrayify_upperCaseRevert: "arrayify upperCaseRevert = Some revertBytes"
  by code_simp





subsection \<open>The loop over the contract entities\<close>

lemma forEachContractEntity_append:
  "forEachContractEntity lib entities errorData acc =
     acc @ concat (map (\<lambda>c. case tryDecodeCustomError lib c errorData of Inr s \<Rightarrow> [s] | Inl e \<Rightarrow> []) entities)"
  by (induction entities arbitrary: acc) (auto split: sum.splits)


lemma concat_map_filter_sum:
  "concat (map (\<lambda>c. case f c of Inr s \<Rightarrow> [s] | Inl e \<Rightarrow> []) xs) =
     map (\<lambda>c. projr (f c)) (filter (\<lambda>c. \<not> isl (f c)) xs)"
  by (induction xs) (auto split: sum.splits)


lemma forEachContractEntity_none:
  "\<forall>c \<in> set entities. isl (tryDecodeCustomError lib c errorData) \<Longrightarrow>
   forEachContractEntity lib entities errorData acc = acc"
  by (induction entities arbitrary: acc) (auto split: sum.splits)


lemma decodeCustomErrorData_built:
  "getDeployableContractEntities hre = Inr entities \<Longrightarrow>
   decodeCustomErrorData hre lib errorData =
     Inr (forEachContractEntity lib entities errorData [])"
  by (simp add: decodeCustomErrorData_def)



subsection \<open>The example environments\<close>

lemma entities_no_contracts: "getDeployableContractEntities (hardhatOf []) = Inr []"
  by (simp add: getDeployableContractEntities_def hardhatOf_def)

lemma entities_vault:
  "getDeployableContractEntities (hardhatOf [(''contracts/Vault.sol:Vault'', vault)]) = Inr [vault]"
  by (simp add: getDeployableContractEntities_def hardhatOf_def vault_def)

lemma entities_exampleHardhat:
  "getDeployableContractEntities exampleHardhat = Inr [tokenA, vault, tokenB]"
  by (simp add: getDeployableContractEntities_def exampleHardhat_def hardhatOf_def
      iToken_def tokenA_def vault_def tokenB_def)

lemma entities_panicHardhat:
  "getDeployableContractEntities panicHardhat = Inr [tokenA, checker, auditor]"
  by (simp add: getDeployableContractEntities_def panicHardhat_def hardhatOf_def
      tokenA_def checker_def auditor_def)



lemma tryDecode_tokenA_balance:
  \<open>tryDecodeCustomError exampleEthers tokenA ''0xcf479181'' =
     Inr ''InsufficientBalance("0xABCDEF", 42) -- from contract "TokenA"''\<close>
  by (simp add: tryDecodeCustomError_def tokenA_def exampleFactory_def exampleEthers_def
      startsWith_def decodeArg_def)

lemma tryDecode_tokenB_balance:
  \<open>tryDecodeCustomError exampleEthers tokenB ''0xcf479181'' =
     Inr ''InsufficientBalance("0xABCDEF", 42) -- from contract "TokenB"''\<close>
  by (simp add: tryDecodeCustomError_def tokenB_def exampleFactory_def exampleEthers_def
      startsWith_def decodeArg_def)

lemma tryDecode_vault: "tryDecodeCustomError lib vault errorData = Inl (Error ''no matching error'')"
  by (simp add: tryDecodeCustomError_def vault_def)

lemma tryDecode_example_other:
  "\<not> startsWith errorData ''0xcf479181'' \<Longrightarrow>
   tryDecodeCustomError lib tokenA errorData = Inl (Error ''no matching error'') \<and>
   tryDecodeCustomError lib tokenB errorData = Inl (Error ''no matching error'')"
  by (simp add: tryDecodeCustomError_def tokenA_def tokenB_def exampleFactory_def)

lemma matches_exampleHardhat_other:
  "\<not> startsWith errorData ''0xcf479181'' \<Longrightarrow>
   decodeCustomErrorData exampleHardhat lib errorData = Inr []"
  by (simp add: decodeCustomErrorData_built [OF entities_exampleHardhat] tryDecode_vault
      tryDecode_example_other)

lemma join_lines:
  "ms \<noteq> [] \<Longrightarrow> pre @ join ms (pre) = concat (map (\<lambda>m. pre @ m) ms)"
  by (induction ms pre rule: join.induct) simp_all

subsection \<open>The split of \<open>decodeErrorData\<close>\<close>

lemma decodeErrorData_split:
  "decodeErrorData hre lib errorData textIndent =
    (case decodeCustomErrorData hre lib errorData of
       Inl e \<Rightarrow> Inl e
     | Inr decodedCustomErrorStrings \<Rightarrow>
         (case classify lib errorData of
            Inl e \<Rightarrow> Inl e
          | Inr c \<Rightarrow> Inr (formatReport lib c decodedCustomErrorStrings textIndent)))"
  by (simp add: decodeErrorData_def classify_def formatReport_def decodeRevertMessage_def
      decodePanicCode_def Let_def split: sum.splits)


lemma classify_other_selector:
  "classify exampleEthers ''0xcf479181'' = Inr Unclassified"
  by (simp add: classify_def startsWith_def)

section \<open>The claims\<close>




text \<open>
  C2. The loop of \<^verbatim>\<open>decodeCustomErrorData\<close> returns the decoded error strings of
  exactly the contract entities whose decoding succeeds, in the order of the entities; a
  failing entity contributes nothing. Two entities that both decode the error data give
  two entries, first the one of the first entity, also when the two strings are equal.
  \<^verbatim>\<open>decodeCustomErrorData\<close> returns the list of that loop over the entities that
  \<^verbatim>\<open>getDeployableContractEntities\<close> has built.
\<close>

theorem decodeCustomErrorData_order:
  "forEachContractEntity lib entities errorData [] =
     map (\<lambda>c. projr (tryDecodeCustomError lib c errorData))
       (filter (\<lambda>c. \<not> isl (tryDecodeCustomError lib c errorData)) entities) \<and>
   (\<forall>c1 c2 s1 s2.
      tryDecodeCustomError lib c1 errorData = Inr s1 \<and>
      tryDecodeCustomError lib c2 errorData = Inr s2 \<longrightarrow>
      forEachContractEntity lib [c1, c2] errorData [] = [s1, s2]) \<and>
   (getDeployableContractEntities hre = Inr entities \<longrightarrow>
      decodeCustomErrorData hre lib errorData =
        Inr (map (\<lambda>c. projr (tryDecodeCustomError lib c errorData))
               (filter (\<lambda>c. \<not> isl (tryDecodeCustomError lib c errorData)) entities)))"
  by (simp add: decodeCustomErrorData_def forEachContractEntity_append concat_map_filter_sum)

theorem decodeCustomErrorData_order_witness:
  \<open>tryDecodeCustomError exampleEthers tokenA ''0xcf479181'' =
     Inr ''InsufficientBalance("0xABCDEF", 42) -- from contract "TokenA"'' \<and>
   tryDecodeCustomError exampleEthers tokenB ''0xcf479181'' =
     Inr ''InsufficientBalance("0xABCDEF", 42) -- from contract "TokenB"'' \<and>
   forEachContractEntity exampleEthers [tokenA, tokenB] ''0xcf479181'' [] =
     [''InsufficientBalance("0xABCDEF", 42) -- from contract "TokenA"'',
      ''InsufficientBalance("0xABCDEF", 42) -- from contract "TokenB"''] \<and>
   forEachContractEntity exampleEthers [tokenA, vault, tokenA] ''0xcf479181'' [] =
     [''InsufficientBalance("0xABCDEF", 42) -- from contract "TokenA"'',
      ''InsufficientBalance("0xABCDEF", 42) -- from contract "TokenA"''] \<and>
   getDeployableContractEntities exampleHardhat = Inr [tokenA, vault, tokenB] \<and>
   decodeCustomErrorData exampleHardhat exampleEthers ''0xcf479181'' =
     Inr [''InsufficientBalance("0xABCDEF", 42) -- from contract "TokenA"'',
          ''InsufficientBalance("0xABCDEF", 42) -- from contract "TokenB"'']\<close>
  using decodeCustomErrorData_order [of exampleEthers "[tokenA, vault, tokenA]" "''0xcf479181''"]
    decodeCustomErrorData_order [of exampleEthers "[tokenA, tokenB]" "''0xcf479181''"]
    decodeCustomErrorData_order [of exampleEthers "[tokenA, vault, tokenB]" "''0xcf479181''"
      exampleHardhat]
  by (simp add: tryDecode_tokenA_balance tryDecode_tokenB_balance tryDecode_vault
      entities_exampleHardhat)

text \<open>
  C3. \<^verbatim>\<open>panicErrorCodeToReason\<close> returns the fixed reason of each of the nine panic
  codes and \<^verbatim>\<open>???\<close> for every other code; it is a total function.
\<close>

theorem panicErrorCodeToReason_table:
  "panicErrorCodeToReason 0x1 = ''Assertion error'' \<and>
   panicErrorCodeToReason 0x11 =
     ''Arithmetic operation underflowed or overflowed outside of an unchecked block'' \<and>
   panicErrorCodeToReason 0x12 = ''Division or modulo division by zero'' \<and>
   panicErrorCodeToReason 0x21 =
     ''Tried to convert a value into an enum, but the value was too big or negative'' \<and>
   panicErrorCodeToReason 0x22 = ''Incorrectly encoded storage byte array'' \<and>
   panicErrorCodeToReason 0x31 = ''.pop() was called on an empty array'' \<and>
   panicErrorCodeToReason 0x32 = ''Array accessed at an out-of-bounds or negative index'' \<and>
   panicErrorCodeToReason 0x41 =
     ''Too much memory was allocated, or an array was created that is too large'' \<and>
   panicErrorCodeToReason 0x51 =
     ''Called a zero-initialized variable of internal function type'' \<and>
   (\<forall>code. code \<notin> {0x1, 0x11, 0x12, 0x21, 0x22, 0x31, 0x32, 0x41, 0x51} \<longrightarrow>
      panicErrorCodeToReason code = ''???'')"
  by (simp add: panicErrorCodeToReason_def)

theorem panicErrorCodeToReason_table_witness:
  "panicErrorCodeToReason 0x99 = ''???'' \<and> panicErrorCodeToReason 0x0 = ''???'' \<and>
   panicErrorCodeToReason 0x11 =
     ''Arithmetic operation underflowed or overflowed outside of an unchecked block''"
  using panicErrorCodeToReason_table by simp



text \<open>
  C4. When the error data is unclassified and no contract entity decodes it, the report
  has two lines, each at the given indent: the first says that the custom error can't
  be decoded using the provided contracts, the second advises to add more contracts to
  the \<^verbatim>\<open>"contracts"\<close> directory. The report contains the text
  \<^verbatim>\<open>can't be decoded using the provided contracts.\<close>
\<close>

theorem report_without_custom_errors:
  \<open>formatReport lib Unclassified [] textIndent =
     textIndent @
     ''Reverted with a custom error that can't be decoded using the provided contracts.\<newline>'' @
     textIndent @
     ''Try to add more contract(s) to the "contracts" directory to get decoded error.'' \<and>
   (classify lib errorData = Inr Unclassified \<and>
    decodeCustomErrorData hre lib errorData = Inr [] \<longrightarrow>
      decodeErrorData hre lib errorData textIndent =
        Inr (formatReport lib Unclassified [] textIndent) \<and>
      (\<exists>before after. decodeErrorData hre lib errorData textIndent =
         Inr (before @ ''can't be decoded using the provided contracts.'' @ after)))\<close>
proof -
  have f: \<open>formatReport lib Unclassified [] textIndent =
     textIndent @
     ''Reverted with a custom error that can't be decoded using the provided contracts.\<newline>'' @
     textIndent @
     ''Try to add more contract(s) to the "contracts" directory to get decoded error.''\<close>
    by (simp add: formatReport_def)
  have g: \<open>formatReport lib Unclassified [] textIndent =
     (textIndent @ ''Reverted with a custom error that '') @
     ''can't be decoded using the provided contracts.'' @
     (''\<newline>'' @ textIndent @
      ''Try to add more contract(s) to the "contracts" directory to get decoded error.'')\<close>
    by (simp add: f)
  show ?thesis
    using f g by (auto simp: decodeErrorData_split simp del: append_assoc)
qed

theorem report_without_custom_errors_witness:
  \<open>classify exampleEthers ''0xcf479181'' = Inr Unclassified \<and>
   decodeCustomErrorData (hardhatOf [(''contracts/Vault.sol:Vault'', vault)]) exampleEthers
     ''0xcf479181'' = Inr [] \<and>
   decodeErrorData (hardhatOf [(''contracts/Vault.sol:Vault'', vault)]) exampleEthers
     ''0xcf479181'' ''    '' =
     Inr (''    Reverted with a custom error that can't be decoded using the provided contracts.\<newline>'' @
          ''    Try to add more contract(s) to the "contracts" directory to get decoded error.'')\<close>
proof -
  have m: "decodeCustomErrorData (hardhatOf [(''contracts/Vault.sol:Vault'', vault)]) exampleEthers
     ''0xcf479181'' = Inr []"
    by (simp add: decodeCustomErrorData_built [OF entities_vault] tryDecode_vault)
  show ?thesis
    using report_without_custom_errors [of exampleEthers "''    ''" "''0xcf479181''"
        "hardhatOf [(''contracts/Vault.sol:Vault'', vault)]"]
      classify_other_selector m
    by simp
qed

text \<open>
  The second line of the report does not name a candidate set: with the wording
  \<^verbatim>\<open>to the candidate set\<close> the two lines are not the report of the script.
\<close>

theorem report_without_custom_errors_counterexample:
  \<open>classify exampleEthers ''0xcf479181'' = Inr Unclassified \<and>
   decodeCustomErrorData (hardhatOf []) exampleEthers ''0xcf479181'' = Inr [] \<and>
   decodeErrorData (hardhatOf []) exampleEthers ''0xcf479181'' ''  '' \<noteq>
     Inr (''  Reverted with a custom error that can't be decoded using the provided contracts.\<newline>'' @
          ''  Try to add more contract(s) to the candidate set to get decoded error.'')\<close>
  by (simp add: classify_other_selector decodeErrorData_split
      decodeCustomErrorData_built [OF entities_no_contracts] formatReport_def)

text \<open>
  C5. When the error data is classified as a standard message or a standard panic and at
  least one contract entity decodes it, the report is the primary line, then the text
  \<^verbatim>\<open> Also it can be the following custom error(s):\<close>, then every decoded custom
  error on a line of its own at the next indent level. The custom errors are those that
  \<^verbatim>\<open>decodeCustomErrorData\<close> returns for the same error data.
\<close>

theorem standard_report_with_custom_errors:
  \<open>classify lib errorData = Inr classification \<Longrightarrow>
   classification \<noteq> Unclassified \<Longrightarrow>
   decodeCustomErrorData hre lib errorData = Inr matches \<Longrightarrow>
   matches \<noteq> [] \<Longrightarrow>
   decodeErrorData hre lib errorData textIndent =
     Inr ((case classification of
             StandardMessage reason \<Rightarrow>
               textIndent @ ''Reverted with the message: "'' @ reason @ ''".''
           | StandardPanic code reason \<Rightarrow>
               textIndent @ ''Panicked with the code: "'' @ toHexString lib code @ ''"('' @
               reason @ '').''
           | Unclassified \<Rightarrow> []) @
          '' Also it can be the following custom error(s):'' @
          concat (map (\<lambda>decodedError. ''\<newline>'' @ textIndent @ textLevelIndent @ decodedError)
            matches))\<close>
proof -
  assume c: "classify lib errorData = Inr classification" "classification \<noteq> Unclassified"
    and d: "decodeCustomErrorData hre lib errorData = Inr matches"
    and m: "matches \<noteq> []"
  have j: "(''\<newline>'' @ textIndent @ ''  '') @ join matches (''\<newline>'' @ textIndent @ ''  '') =
      concat (map (\<lambda>decodedError. (''\<newline>'' @ textIndent @ ''  '') @ decodedError) matches)"
    using m by (rule join_lines)
  show ?thesis
    using c m j unfolding decodeErrorData_split d
    by (cases classification) (simp_all add: formatReport_def textLevelIndent_def)
qed

theorem standard_report_with_custom_errors_witness:
  \<open>classify exampleEthers (hexlify panicBytes) =
     Inr (StandardPanic 0x11
       ''Arithmetic operation underflowed or overflowed outside of an unchecked block'') \<and>
   decodeCustomErrorData panicHardhat exampleEthers (hexlify panicBytes) =
     Inr [''Panic(17) -- from contract "Checker"'', ''Panic(17) -- from contract "Auditor"''] \<and>
   decodeErrorData panicHardhat exampleEthers (hexlify panicBytes) '' '' =
     Inr ('' Panicked with the code: "0x11"(Arithmetic operation underflowed or overflowed outside of an unchecked block).'' @
          '' Also it can be the following custom error(s):\<newline>'' @
          ''   Panic(17) -- from contract "Checker"\<newline>'' @
          ''   Panic(17) -- from contract "Auditor"'')\<close>
proof -
  have c: "classify exampleEthers (hexlify panicBytes) =
     Inr (StandardPanic 0x11
       ''Arithmetic operation underflowed or overflowed outside of an unchecked block'')"
    unfolding hexlify_panicBytes_full
    by (simp add: classify_def startsWith_def substring_def exampleEthers_def
        panicErrorCodeToReason_def)
  have m: \<open>decodeCustomErrorData panicHardhat exampleEthers (hexlify panicBytes) =
     Inr [''Panic(17) -- from contract "Checker"'', ''Panic(17) -- from contract "Auditor"'']\<close>
    unfolding hexlify_panicBytes_full decodeCustomErrorData_built [OF entities_panicHardhat]
    by (simp add: tryDecodeCustomError_def tokenA_def checker_def auditor_def
        exampleFactory_def startsWith_def decodeArg_def exampleEthers_def)
  have h: "toHexString exampleEthers 0x11 = ''0x11''"
    by (simp add: exampleEthers_def hexlify_def hexByte_def hexDigit_def)
  show ?thesis
    using standard_report_with_custom_errors [OF c _ m, of "'' ''"] c m
    by (simp add: h textLevelIndent_def)
qed










text \<open>
  C10. The selector test compares characters. Error data whose hexadecimal string starts
  with \<^verbatim>\<open>0x08C379A0\<close> denotes bytes that start with the selector of
  \<^verbatim>\<open>Error(string)\<close>, and yet it is unclassified: the report is the one of the custom
  error branch.
\<close>

theorem upper_case_selector_unclassified:
  "startsWith errorData ''0x08C379A0'' \<Longrightarrow>
   (\<forall>bytes. arrayify errorData = Some bytes \<longrightarrow> take 4 bytes = errorSelector) \<and>
   classify lib errorData = Inr Unclassified \<and>
   (\<forall>matches. decodeCustomErrorData hre lib errorData = Inr matches \<longrightarrow>
      decodeErrorData hre lib errorData textIndent =
        Inr (formatReport lib Unclassified matches textIndent))"
proof -
  assume u: "startsWith errorData ''0x08C379A0''"
  then have t: "take 10 errorData = ''0x08C379A0''"
    by (simp add: startsWith_def eval_nat_numeral)
  then have e: "errorData = ''0x08C379A0'' @ drop 10 errorData"
    by (metis append_take_drop_id)
  have "arrayify errorData = map_option (\<lambda>bytes. errorSelector @ bytes) (hexPairs (drop 10 errorData))"
    by (subst e) (simp add: arrayify_def startsWith_def hexPairs_upper [simplified])
  then have b: "\<forall>bytes. arrayify errorData = Some bytes \<longrightarrow> take 4 bytes = errorSelector"
    by (auto simp: errorSelector_def)
  have c: "classify lib errorData = Inr Unclassified"
    using t by (simp add: classify_def startsWith_def eval_nat_numeral)
  show ?thesis
    using b c by (simp add: decodeErrorData_split)
qed

theorem upper_case_selector_unclassified_witness:
  \<open>startsWith upperCaseRevert ''0x08C379A0'' \<and>
   arrayify upperCaseRevert = Some revertBytes \<and>
   take 4 revertBytes = errorSelector \<and>
   classify exampleEthers upperCaseRevert = Inr Unclassified \<and>
   decodeCustomErrorData exampleHardhat exampleEthers upperCaseRevert = Inr [] \<and>
   decodeErrorData exampleHardhat exampleEthers upperCaseRevert ''  '' =
     Inr (''  Reverted with a custom error that can't be decoded using the provided contracts.\<newline>'' @
          ''  Try to add more contract(s) to the "contracts" directory to get decoded error.'')\<close>
proof -
  have u: "startsWith upperCaseRevert ''0x08C379A0''"
    by (simp add: startsWith_def upperCaseRevert_def)
  have "\<not> startsWith upperCaseRevert ''0xcf479181''"
    by (simp add: startsWith_def upperCaseRevert_def)
  then have m: "decodeCustomErrorData exampleHardhat exampleEthers upperCaseRevert = Inr []"
    by (rule matches_exampleHardhat_other)
  show ?thesis
    using upper_case_selector_unclassified [OF u, of exampleEthers exampleHardhat "''  ''"]
      u arrayify_upperCaseRevert m
    by (simp add: formatReport_def)
qed

end
